theory Spec2Isabelle
  imports Complex_Main
begin

section \<open>Numbers and optional values\<close>

text \<open>
  The controller is the closure built by the wrapper \<^verbatim>\<open>Globe = function(container, opts)\<close>
  (latest revision, \<^verbatim>\<open>src/unnamed/part_001\<close>, lines 551 to 1423).  JavaScript numbers are
  modelled as mathematical reals: rounding of IEEE doubles, infinities and NaN are outside
  the model.  A variable that may hold \<^verbatim>\<open>undefined\<close> or \<^verbatim>\<open>null\<close> is an \<open>option\<close>, with
  \<open>None\<close> for both.  An optional URL is falsy when it is absent or the empty string.
\<close>

definition truthy_url :: "string option \<Rightarrow> bool" where
  "truthy_url u = (case u of None \<Rightarrow> False | Some x \<Rightarrow> x \<noteq> [])"

section \<open>Configuration: planets and options\<close>

text \<open>
  An entry of the table \<^verbatim>\<open>_planet\<close> (lines 659 to 767), or a record passed by the caller as
  \<^verbatim>\<open>opts.planet\<close>.  Fields an entry may leave out are optional.
\<close>

record planet =
  radius :: real
  atmosphere :: bool
  imageURL :: "string option"
  nightImageURL :: "string option"
  bumpImageURL :: "string option"
  waterURL :: "string option"
  bumpScale :: "real option"
  cloudsAltitude :: "real option"
  cloudsRotateSpeed :: "real option"
  cloudsURL :: "string option"

definition plain_planet :: "real \<Rightarrow> string \<Rightarrow> planet" where
  "plain_planet r img =
     \<lparr>radius = r, atmosphere = False, imageURL = Some img, nightImageURL = None,
      bumpImageURL = None, waterURL = None, bumpScale = None, cloudsAltitude = None,
      cloudsRotateSpeed = None, cloudsURL = None\<rparr>"

definition bumped_planet :: "real \<Rightarrow> string \<Rightarrow> string \<Rightarrow> planet" where
  "bumped_planet r img bump = (plain_planet r img)\<lparr>bumpImageURL := Some bump, bumpScale := Some 1\<rparr>"

definition earth :: planet where
  "earth =
     \<lparr>radius = 6371, atmosphere = True,
      imageURL = Some ''./images/earth-day.jpg'',
      nightImageURL = Some ''./images/earth-night.jpg'',
      bumpImageURL = Some ''./images/earth-bump.png'',
      waterURL = Some ''./images/earth-water.png'',
      bumpScale = Some 10,
      cloudsAltitude = Some 0.015,
      cloudsRotateSpeed = Some 0.006,
      cloudsURL = Some ''./images/earth-clouds.png''\<rparr>"

text \<open>
  The lookup \<^verbatim>\<open>_planet[opts.planet]\<close>: \<open>None\<close> is \<^verbatim>\<open>undefined\<close>.  (Names inherited from
  \<^verbatim>\<open>Object.prototype\<close> are not modelled.)
\<close>

definition planet_table :: "string \<Rightarrow> planet option" where
  "planet_table name =
     (if name = ''earth'' then Some earth
      else if name = ''moon'' then Some (bumped_planet 1080 ''./images/moon.jpg'' ''./images/moon_bump.jpg'')
      else if name = ''mercury'' then Some (bumped_planet 1516 ''./images/mercury.jpg'' ''./images/mercury-bump.jpg'')
      else if name = ''venus'' then Some (bumped_planet 3760.4 ''./images/venus.jpg'' ''./images/venus-bump.jpg'')
      else if name = ''mars'' then Some (bumped_planet 2106 ''./images/mars.jpg'' ''./images/mars-bump.jpg'')
      else if name = ''jupiter'' then Some (plain_planet 43441 ''./images/jupiter.jpg'')
      else if name = ''saturn'' then Some (plain_planet 36184 ''./images/saturn.jpg'')
      else if name = ''uranus'' then Some (plain_planet 15759 ''./images/uranus.jpg'')
      else if name = ''neptune'' then Some (plain_planet 15299 ''./images/neptune.jpg'')
      else if name = ''pluto'' then Some (bumped_planet 738.38 ''./images/pluto.jpg'' ''./images/pluto-bump.jpg'')
      else if name = ''sun'' then Some (plain_planet 432288 ''./images/sun.jpg'')
      else None)"

datatype planet_choice = PlanetName string | PlanetRecord planet

text \<open>The options the controller reads, after the defaults are merged in (lines 770 to 813).\<close>

record opts =
  autoRotateSpeed :: real
  autoSpinAfterIdleMs :: int
  interactionSpinThreshold :: real
  onlySpinAboveAltitude :: real
  opt_showClouds :: bool
  tileEngineURL :: "string option"
  opt_planet :: planet_choice
  dayMode :: string

definition default_opts :: opts where
  "default_opts =
     \<lparr>autoRotateSpeed = 0.35, autoSpinAfterIdleMs = 15000, interactionSpinThreshold = 0.01,
      onlySpinAboveAltitude = 0.4, opt_showClouds = True,
      tileEngineURL = Some ''https://tile.openstreetmap.org/${l}/${x}/${y}.png'',
      opt_planet = PlanetName ''earth'', dayMode = ''day''\<rparr>"

subsection \<open>The constructor's choice of planet, day mode and images\<close>

datatype error = TypeError

text \<open>Lines 832 and 833: \<^verbatim>\<open>typeof opts.planet == 'object' ? opts.planet : _planet[opts.planet]\<close>.\<close>

definition resolve_planet :: "opts \<Rightarrow> planet option" where
  "resolve_planet opts =
     (case opt_planet opts of PlanetRecord p \<Rightarrow> Some p | PlanetName name \<Rightarrow> planet_table name)"

text \<open>
  What the constructor has decided once line 847 is reached: the options with the day mode
  possibly overridden, the planet, and the arguments of the calls \<^verbatim>\<open>g.globeImageUrl\<close> and
  \<^verbatim>\<open>g.bumpImageUrl\<close> (\<open>None\<close> when the call is not made) and whether the atmosphere is shown.
\<close>

record construction =
  s_opts :: opts
  s_planet :: planet
  globeImageUrl :: "string option"
  bumpImageUrl :: "string option"
  showAtmosphere :: bool

text \<open>
  Lines 832 to 847.  Reading \<^verbatim>\<open>planet.nightImageURL\<close> of an \<^verbatim>\<open>undefined\<close> planet throws a
  \<^verbatim>\<open>TypeError\<close>.
\<close>

definition Globe_setup :: "opts \<Rightarrow> error + construction" where
  "Globe_setup opts0 =
     (case resolve_planet opts0 of
        None \<Rightarrow> Inl TypeError
      | Some planet \<Rightarrow>
          (let opts = (if \<not> truthy_url (nightImageURL planet) then opts0\<lparr>dayMode := ''day''\<rparr> else opts0)
           in Inr \<lparr>s_opts = opts, s_planet = planet,
                   globeImageUrl =
                     (if \<not> truthy_url (tileEngineURL opts) \<and> truthy_url (imageURL planet)
                         \<and> dayMode opts \<noteq> ''daynight''
                      then (if dayMode opts = ''night'' then nightImageURL planet else imageURL planet)
                      else None),
                   bumpImageUrl =
                     (if \<not> truthy_url (tileEngineURL opts) \<and> truthy_url (bumpImageURL planet)
                         \<and> dayMode opts \<noteq> ''daynight''
                      then bumpImageURL planet else None),
                   showAtmosphere = atmosphere planet\<rparr>))"

text \<open>
  The choices \<^verbatim>\<open>_showSurface\<close> makes from the options and the planet (lines 1005 to 1038):
  whether the solar calculator is imported, the image of the surface, the second image of the
  day/night shader, whether the material is the emissive one of night mode, and its kind.
\<close>

datatype material = DayNightShader | MeshPhong | MeshLambert

record surface_plan =
  with_solar :: bool
  planetimage :: "string option"
  surface2image :: "string option"
  emissive :: bool
  mat :: material

definition showSurface_plan :: "opts \<Rightarrow> planet \<Rightarrow> surface_plan" where
  "showSurface_plan opts planet =
     \<lparr>with_solar = (dayMode opts = ''daynight''),
      planetimage = (if dayMode opts = ''night'' then nightImageURL planet else imageURL planet),
      surface2image = (if dayMode opts = ''daynight'' then nightImageURL planet else None),
      emissive = (dayMode opts = ''night''),
      mat = (if dayMode opts = ''daynight'' then DayNightShader
             else if truthy_url (waterURL planet) then MeshPhong else MeshLambert)\<rparr>"

section \<open>Altitude to opacity, camera near distance and tilt\<close>

text \<open>
  The expression of \<^verbatim>\<open>_changeSurfaceOpacity\<close> (line 1069), with its two local constants:
  \<^verbatim>\<open>Math.min(1, Math.max(0, (altitude - opacity0alt) / (opacity1alt - opacity0alt)))\<close>.
\<close>

definition opacity1alt :: real where
  "opacity1alt = 1"

definition opacity0alt :: real where
  "opacity0alt = 0.4"

definition opacityForAltitude :: "real \<Rightarrow> real" where
  "opacityForAltitude altitude =
     min 1 (max 0 ((altitude - opacity0alt) / (opacity1alt - opacity0alt)))"

text \<open>
  \<^verbatim>\<open>_cosineHump\<close> (lines 1123 to 1162).  The locals \<^verbatim>\<open>scaledX\<close> and \<^verbatim>\<open>angle\<close> of the source
  are computed and never used; they are left out.
\<close>

definition cosineHump :: "real \<Rightarrow> real \<Rightarrow> real \<Rightarrow> real \<Rightarrow> real" where
  "cosineHump x center width height =
     (let halfWidth = width / 2;
          xMin = center - halfWidth;
          xMax = center + halfWidth
      in if x < xMin \<or> x > xMax then 0
         else (let angleFullPeriod = (x - center) * (2 * pi / width);
                   baseHump = 0.5 * (cos angleFullPeriod + 1)
               in height * baseHump))"

text \<open>The value \<^verbatim>\<open>y\<close> computed by \<^verbatim>\<open>_changeCameraAngle\<close> (lines 1102 to 1107).\<close>

definition maxTiltY :: real where
  "maxTiltY = 80"

definition startTiltAlt :: real where
  "startTiltAlt = 0"

definition endTiltAlt :: real where
  "endTiltAlt = 0.05"

definition tiltForAltitude :: "real \<Rightarrow> real" where
  "tiltForAltitude alt =
     (let width = endTiltAlt - startTiltAlt;
          center = startTiltAlt + width / 2
      in cosineHump alt center width maxTiltY)"

section \<open>The controller's state\<close>

record latlngalt =
  lat :: real
  lng :: real
  altitude :: real

text \<open>
  The three functions of \<^verbatim>\<open>./dependency/solar-calculator.mjs\<close> that \<^verbatim>\<open>_sunPosAt\<close> calls.  The
  module is not part of the sources; it is a parameter of the model.  An instant is a number
  of milliseconds since the epoch.
\<close>

record solar_module =
  century :: "int \<Rightarrow> real"
  equationOfTime :: "real \<Rightarrow> real"
  declination :: "real \<Rightarrow> real"

text \<open>
  The first group of fields are the variables of the closure, under their names in the
  source without the underscore; \<open>surface\<close>, \<open>clouds\<close> and \<open>three\<close> say whether \<^verbatim>\<open>_surface\<close>,
  \<^verbatim>\<open>_clouds\<close> and \<^verbatim>\<open>Globe.THREE\<close> are set.  \<open>nonInteractionTimer\<close> holds the instant at which the
  pending idle timer fires, \<open>now\<close> is the clock of the event loop, and \<open>clouds_builds\<close> counts
  the calls of \<^verbatim>\<open>_createClouds\<close>.  The second group are the fields of the widget, its camera,
  its orbit controls and its scene that the controller reads or writes.  \<open>surface_opacity\<close> is
  the opacity of the surface material: the uniform of the day/night shader when the solar
  calculator is loaded, the material's own property otherwise.
\<close>

record globe =
  globeready :: bool
  now :: int
  nonInteractionTimer :: "int option"
  prevLatLngAlt :: "latlngalt option"
  spinspeed :: "real option"
  three :: bool
  surface :: bool
  solar :: "solar_module option"
  prevSurfaceOpacity :: "real option"
  cloudsshown :: bool
  clouds :: bool
  clouds_builds :: nat
  controls_autoRotate :: bool
  controls_autoRotateSpeed :: "real option"
  controls_minDistance :: real
  controls_maxDistance :: real
  controls_target_y :: real
  controls_facing_y :: "real option"
  camera_near :: real
  camera_far :: real
  surface_opacity :: real
  sunPosition :: "real \<times> real"
  globeRotation :: "real \<times> real"
  pointOfView :: latlngalt
  globeRadius :: real
  globeTileEngineMaxLevel :: nat
  scene_surface :: bool
  scene_clouds :: bool

section \<open>Spin\<close>

text \<open>The argument of \<^verbatim>\<open>g.spinGlobe\<close>: left out, \<^verbatim>\<open>null\<close>, or a number.\<close>

datatype speed = Undefined | Null | Num real

text \<open>
  \<^verbatim>\<open>g.spinGlobe\<close> (lines 985 to 993).  \<^verbatim>\<open>speed == null\<close> holds of \<^verbatim>\<open>undefined\<close> and \<^verbatim>\<open>null\<close>;
  \<^verbatim>\<open>_spinspeed || opts.autoRotateSpeed\<close> keeps \<^verbatim>\<open>_spinspeed\<close> when it is set and not zero;
  \<^verbatim>\<open>else if (speed)\<close> holds of a number other than zero.
\<close>

definition spinGlobe :: "opts \<Rightarrow> speed \<Rightarrow> globe \<Rightarrow> globe" where
  "spinGlobe opts speed g =
     (let spinspeed' =
            (case speed of
               Num v \<Rightarrow> (if v \<noteq> 0 then Some v else spinspeed g)
             | _ \<Rightarrow> (case spinspeed g of
                        Some v \<Rightarrow> (if v \<noteq> 0 then Some v else Some (autoRotateSpeed opts))
                      | None \<Rightarrow> Some (autoRotateSpeed opts)))
      in g\<lparr>spinspeed := spinspeed',
            controls_autoRotate := (speed \<noteq> Num 0),
            controls_autoRotateSpeed := spinspeed'\<rparr>)"

text \<open>The arguments for which \<^verbatim>\<open>speed == null\<close> holds.\<close>

definition nullish :: "speed \<Rightarrow> bool" where
  "nullish a = (a = Undefined \<or> a = Null)"

text \<open>
  \<^verbatim>\<open>_onInteraction\<close> (lines 905 to 927).  Clearing the pending timer and setting a new one
  replaces the instant at which the one idle timer fires.
\<close>

definition onInteraction :: "opts \<Rightarrow> globe \<Rightarrow> globe" where
  "onInteraction opts g =
     (if \<not> globeready g then g
      else if autoSpinAfterIdleMs opts > 0
      then (spinGlobe opts (Num 0) g)\<lparr>nonInteractionTimer := Some (now g + autoSpinAfterIdleMs opts)\<rparr>
      else g)"

text \<open>The callback of the idle timer (lines 917 to 925).\<close>

definition nonInteractionTimeout :: "opts \<Rightarrow> globe \<Rightarrow> globe" where
  "nonInteractionTimeout opts g =
     (let g1 = g\<lparr>nonInteractionTimer := None\<rparr>;
          latlngalt = pointOfView g1
      in if altitude latlngalt > onlySpinAboveAltitude opts
         then spinGlobe opts Undefined g1 else g1)"

text \<open>
  The event loop lets time pass until the instant \<open>t\<close> with no other event: the idle timer,
  when it is due by then, fires at its instant.
\<close>

definition elapse_to :: "opts \<Rightarrow> int \<Rightarrow> globe \<Rightarrow> globe" where
  "elapse_to opts t g =
     (if t < now g then g
      else (case nonInteractionTimer g of
              None \<Rightarrow> g\<lparr>now := t\<rparr>
            | Some d \<Rightarrow> (if d \<le> t then (nonInteractionTimeout opts (g\<lparr>now := max d (now g)\<rparr>))\<lparr>now := t\<rparr>
                         else g\<lparr>now := t\<rparr>)))"

section \<open>Surface overlay\<close>

text \<open>
  \<^verbatim>\<open>_loadThreeJS\<close> (lines 1354 to 1377): the first call imports the library, taken to arrive
  at once, and gives the controls a facing point, a copy of their target.
\<close>

definition loadThreeJS :: "globe \<Rightarrow> globe" where
  "loadThreeJS g =
     (if \<not> three g then g\<lparr>three := True, controls_facing_y := Some (controls_target_y g)\<rparr> else g)"

text \<open>\<^verbatim>\<open>_changeCameraNear\<close> (lines 1090 to 1098).\<close>

definition changeCameraNear :: "real \<Rightarrow> globe \<Rightarrow> globe" where
  "changeCameraNear near g =
     (let g1 = g\<lparr>camera_near := near\<rparr>;
          g2 = g1\<lparr>camera_far := globeRadius g1 * 100\<rparr>;
          g3 = g2\<lparr>controls_minDistance := globeRadius g2 * (1 + 5 / 2 ^ globeTileEngineMaxLevel g2)\<rparr>
      in g3\<lparr>controls_maxDistance := camera_far g3 - globeRadius g3\<rparr>)"

text \<open>\<^verbatim>\<open>_changeCameraAngle\<close> (lines 1100 to 1111).\<close>

definition changeCameraAngle :: "real \<Rightarrow> globe \<Rightarrow> globe" where
  "changeCameraAngle alt g =
     (let y = tiltForAltitude alt
      in case controls_facing_y g of Some old \<Rightarrow> g\<lparr>controls_facing_y := Some y\<rparr> | None \<Rightarrow> g)"

text \<open>
  \<^verbatim>\<open>_changeSurfaceOpacity\<close> (lines 1061 to 1088).  \<^verbatim>\<open>_prevSurfaceOpacity > 0\<close> and
  \<^verbatim>\<open>_prevSurfaceOpacity === 0\<close> are both false while the variable is \<^verbatim>\<open>undefined\<close>.
\<close>

definition changeSurfaceOpacity :: "opts \<Rightarrow> real \<Rightarrow> globe \<Rightarrow> globe" where
  "changeSurfaceOpacity opts alt g =
     (if \<not> surface g \<or> \<not> truthy_url (tileEngineURL opts) then g
      else (let opacity = opacityForAltitude alt;
                g1 = g\<lparr>surface_opacity := opacity\<rparr>;
                g2 = (if (case prevSurfaceOpacity g1 of Some p \<Rightarrow> p > 0 | None \<Rightarrow> False) \<and> opacity = 0
                      then changeCameraNear 0.00001 g1
                      else if prevSurfaceOpacity g1 = Some 0 \<and> opacity > 0
                      then changeCameraNear 0.05 g1
                      else g1);
                g3 = g2\<lparr>prevSurfaceOpacity := Some opacity\<rparr>
            in changeCameraAngle alt g3))"

section \<open>Sun\<close>

text \<open>
  \<^verbatim>\<open>new Date(+dt).setUTCHours(0, 0, 0, 0)\<close>: the start of the UTC day of \<open>dt\<close>, in milliseconds.
\<close>

definition utcMidnight :: "int \<Rightarrow> int" where
  "utcMidnight dt = dt - dt mod 86400000"

text \<open>\<^verbatim>\<open>_sunPosAt\<close> (lines 1165 to 1171).\<close>

definition sunPosAt :: "solar_module \<Rightarrow> int \<Rightarrow> real \<times> real" where
  "sunPosAt sol dt =
     (let day = utcMidnight dt;
          t = century sol dt;
          lng = real_of_int (day - dt) / 86400000 * 360 - 180
      in (lng - equationOfTime sol t / 4, declination sol t))"

text \<open>\<^verbatim>\<open>_moveSunToPositionAtDate\<close> (lines 1173 to 1177), the instant given by the caller.\<close>

definition moveSunToPositionAtDate :: "int \<Rightarrow> globe \<Rightarrow> globe" where
  "moveSunToPositionAtDate dt g =
     (case solar g of
        Some sol \<Rightarrow> (if surface g then g\<lparr>sunPosition := sunPosAt sol dt\<rparr> else g)
      | None \<Rightarrow> g)"

text \<open>\<^verbatim>\<open>_updateSunRotation\<close> (lines 1187 to 1191).\<close>

definition updateSunRotation :: "latlngalt \<Rightarrow> globe \<Rightarrow> globe" where
  "updateSunRotation latLngAlt g =
     (case solar g of
        Some sol \<Rightarrow> (if surface g then g\<lparr>globeRotation := (lng latLngAlt, lat latLngAlt)\<rparr> else g)
      | None \<Rightarrow> g)"

text \<open>
  The state when \<^verbatim>\<open>_showSurface\<close> (lines 1001 to 1058) has run to its end, every texture
  loaded: \<open>sol\<close> is the imported solar calculator.  The day/night shader is created with its
  opacity uniform at 1 (line 1259); the other materials are given no opacity.  The sun is
  placed at the current instant (\<^verbatim>\<open>_startSunLifeLoop\<close>); its repetition every minute is the
  event \<open>moveSunToPositionAtDate\<close>.  Shadows and the position of the light are not modelled.
\<close>

definition showSurface :: "opts \<Rightarrow> solar_module \<Rightarrow> globe \<Rightarrow> globe" where
  "showSurface opts sol g =
     (let g1 = loadThreeJS g;
          g2 = g1\<lparr>solar := (if dayMode opts = ''daynight'' then Some sol else None)\<rparr>;
          g3 = (if dayMode opts = ''daynight'' then g2\<lparr>surface_opacity := 1\<rparr> else g2);
          g4 = g3\<lparr>surface := True\<rparr>;
          g5 = (if dayMode opts = ''daynight'' then moveSunToPositionAtDate (now g4) g4 else g4)
      in g5\<lparr>scene_surface := True\<rparr>)"

section \<open>Zoom\<close>

text \<open>
  The handler given to \<^verbatim>\<open>g.onZoom\<close> (lines 933 to 952), without the call of the user's own
  callback.  While \<^verbatim>\<open>_prevLatLngAlt\<close> is \<^verbatim>\<open>undefined\<close> the first test fails, the difference of
  the second is not a number and its test fails, and the third test holds.
\<close>

definition onZoom :: "opts \<Rightarrow> latlngalt \<Rightarrow> globe \<Rightarrow> globe" where
  "onZoom opts latLngAlt g =
     (let g1 = (case prevLatLngAlt g of
                  Some p \<Rightarrow> (if \<bar>altitude p - altitude latLngAlt\<bar> > interactionSpinThreshold opts
                             then onInteraction opts g else g)
                | None \<Rightarrow> g);
          g2 = (case prevLatLngAlt g1 of
                  Some p \<Rightarrow> (if \<bar>altitude p - altitude latLngAlt\<bar> > 0.00001
                             then changeSurfaceOpacity opts (altitude latLngAlt) g1 else g1)
                | None \<Rightarrow> g1);
          g3 = (case prevLatLngAlt g2 of
                  Some p \<Rightarrow> (if lat p \<noteq> lat latLngAlt \<or> lng p \<noteq> lng latLngAlt
                             then updateSunRotation latLngAlt g2 else g2)
                | None \<Rightarrow> updateSunRotation latLngAlt g2)
      in g3\<lparr>prevLatLngAlt := Some latLngAlt\<rparr>)"

section \<open>Clouds\<close>

text \<open>
  \<^verbatim>\<open>_addClouds\<close> (lines 1324 to 1337) puts the mesh into the scene; the rotation it starts,
  one step per animation frame, is not modelled.
\<close>

definition addClouds :: "globe \<Rightarrow> globe" where
  "addClouds g = g\<lparr>scene_clouds := True\<rparr>"

text \<open>
  \<^verbatim>\<open>_createClouds\<close> (lines 1296 to 1321) in two steps: the call, which starts a build, and the
  callback of the texture loader, which runs when the texture has arrived.
\<close>

definition createClouds :: "globe \<Rightarrow> globe" where
  "createClouds g = (loadThreeJS g)\<lparr>clouds_builds := clouds_builds g + 1\<rparr>"

definition cloudsTextureLoaded :: "globe \<Rightarrow> globe" where
  "cloudsTextureLoaded g = addClouds (g\<lparr>clouds := True\<rparr>)"

text \<open>\<^verbatim>\<open>g.showClouds\<close> (lines 1274 to 1294), up to the first point where it waits.\<close>

definition showClouds :: "planet \<Rightarrow> bool \<Rightarrow> globe \<Rightarrow> globe" where
  "showClouds planet show g =
     (if show = cloudsshown g \<or> \<not> truthy_url (cloudsURL planet) then g
      else (let g1 = g\<lparr>cloudsshown := show\<rparr>
            in if show
               then (if \<not> clouds g1 then createClouds g1 else addClouds g1)
               else g1\<lparr>scene_clouds := False\<rparr>))"

text \<open>
  The closure's variables as the constructor leaves them, in a widget whose own fields have
  the values the source's comments give (camera near at 0.05) or sample values.
\<close>

definition new_globe :: globe where
  "new_globe =
     \<lparr>globeready = False, now = 0, nonInteractionTimer = None, prevLatLngAlt = None,
      spinspeed = None, three = False, surface = False, solar = None,
      prevSurfaceOpacity = None, cloudsshown = False, clouds = False, clouds_builds = 0,
      controls_autoRotate = False, controls_autoRotateSpeed = Some 2,
      controls_minDistance = 101, controls_maxDistance = 10000, controls_target_y = 0,
      controls_facing_y = None, camera_near = 0.05, camera_far = 5000,
      surface_opacity = 1, sunPosition = (0, 0), globeRotation = (0, 0),
      pointOfView = \<lparr>lat = 0, lng = 0, altitude = 2.5\<rparr>,
      globeRadius = 100, globeTileEngineMaxLevel = 17,
      scene_surface = False, scene_clouds = False\<rparr>"

text \<open>
  Two values for examples: the default options with an idle delay of one second, and the
  state the ready handler reaches with the default options once it has started the spin
  (line 862) and the ready flag is set (line 872).
\<close>

definition idle_opts :: opts where
  "idle_opts = default_opts\<lparr>autoSpinAfterIdleMs := 1000\<rparr>"

definition spinning_globe :: globe where
  "spinning_globe =
     (spinGlobe default_opts (Num (autoRotateSpeed default_opts)) new_globe)\<lparr>globeready := True\<rparr>"

text \<open>
  More values for examples: a stand-in for the solar calculator (a linear century, no
  equation of time, no declination), a view sample over the point of latitude and longitude
  zero, and the default options in day/night mode.
\<close>

definition sample_solar :: solar_module where
  "sample_solar =
     \<lparr>century = (\<lambda>dt. real_of_int (dt - 946728000000) / 3155760000000),
      equationOfTime = (\<lambda>t. 0), declination = (\<lambda>t. 0)\<rparr>"

definition view_at :: "real \<Rightarrow> latlngalt" where
  "view_at a = \<lparr>lat = 0, lng = 0, altitude = a\<rparr>"

definition daynight_opts :: opts where
  "daynight_opts = default_opts\<lparr>dayMode := ''daynight''\<rparr>"

section \<open>Properties\<close>

subsection \<open>Opacity\<close>

lemma opacityForAltitude_unfold:
  "opacityForAltitude a = min 1 (max 0 ((a - 0.4) / 0.6))"
  by (simp add: opacityForAltitude_def opacity0alt_def opacity1alt_def)

lemma opacity_low: "a \<le> 0.4 \<Longrightarrow> opacityForAltitude a = 0"
  unfolding opacityForAltitude_unfold by (simp add: max_def min_def)

lemma opacity_high: "1 \<le> a \<Longrightarrow> opacityForAltitude a = 1"
  unfolding opacityForAltitude_unfold by (simp add: max_def min_def)

lemma opacity_mid: "0.4 < a \<Longrightarrow> a < 1 \<Longrightarrow> opacityForAltitude a = (a - 0.4) / (1 - 0.4)"
  unfolding opacityForAltitude_unfold by (simp add: max_def min_def)

lemma opacity_mono: "a \<le> b \<Longrightarrow> opacityForAltitude a \<le> opacityForAltitude b"
proof -
  assume "a \<le> b"
  then have "(a - 0.4) / 0.6 \<le> (b - 0.4) / 0.6"
    by (simp add: divide_right_mono)
  then show ?thesis
    unfolding opacityForAltitude_unfold by (simp add: max_def min_def)
qed

lemma opacity_range: "0 \<le> opacityForAltitude a \<and> opacityForAltitude a \<le> 1"
  unfolding opacityForAltitude_unfold by simp

lemma opacity_zero_iff: "opacityForAltitude a = 0 \<longleftrightarrow> a \<le> 0.4"
  unfolding opacityForAltitude_unfold by (simp add: max_def min_def)

text \<open>
  C3.  For every altitude \<open>a\<close> the surface opacity is 0 when \<open>a \<le> 0.4\<close>, is 1 when \<open>a \<ge> 1\<close>,
  and for \<open>0.4 < a < 1\<close> is the linear ramp \<open>(a - 0.4) / (1 - 0.4)\<close>; it is that ramp clamped
  to the interval from 0 to 1 everywhere, and it never decreases when the altitude grows.
\<close>

theorem opacityForAltitude_ramp:
  "(a \<le> 0.4 \<longrightarrow> opacityForAltitude a = 0)
   \<and> (1 \<le> a \<longrightarrow> opacityForAltitude a = 1)
   \<and> (0.4 < a \<and> a < 1 \<longrightarrow> opacityForAltitude a = (a - 0.4) / (1 - 0.4))
   \<and> opacityForAltitude a = min 1 (max 0 ((a - 0.4) / (1 - 0.4)))
   \<and> 0 \<le> opacityForAltitude a \<and> opacityForAltitude a \<le> 1
   \<and> (a \<le> b \<longrightarrow> opacityForAltitude a \<le> opacityForAltitude b)"
  using opacity_low [of a] opacity_high [of a] opacity_mid [of a] opacity_mono [of a b]
    opacity_range [of a] opacityForAltitude_unfold [of a]
  by simp

theorem opacityForAltitude_ramp_witness:
  "(0.3::real) \<le> 0.4 \<and> opacityForAltitude 0.3 = 0
   \<and> (1::real) \<le> 2.5 \<and> opacityForAltitude 2.5 = 1
   \<and> (0.4::real) < 0.7 \<and> (0.7::real) < 1 \<and> opacityForAltitude 0.7 = 0.5
   \<and> (0.3::real) \<le> 0.7 \<and> opacityForAltitude 0.3 \<le> opacityForAltitude 0.7"
  using opacityForAltitude_ramp [of "0.3" "0.7"] opacityForAltitude_ramp [of "2.5" "2.5"]
    opacityForAltitude_ramp [of "0.7" "0.7"]
  by simp

subsection \<open>Tilt\<close>

lemma tiltForAltitude_unfold:
  "tiltForAltitude a =
     (if a < 0 \<or> a > 0.05 then 0 else 80 * (0.5 * (cos ((a - 0.025) * (2 * pi / 0.05)) + 1)))"
  by (simp add: tiltForAltitude_def cosineHump_def maxTiltY_def startTiltAlt_def endTiltAlt_def Let_def)

lemma tilt_outside: "a < 0 \<or> 0.05 < a \<Longrightarrow> tiltForAltitude a = 0"
  by (auto simp: tiltForAltitude_unfold)

lemma tilt_inside:
  "0 \<le> a \<Longrightarrow> a \<le> 0.05 \<Longrightarrow>
     tiltForAltitude a = 80 * 0.5 * (cos ((a - 0.025) * 2 * pi / 0.05) + 1)"
  by (simp add: tiltForAltitude_unfold algebra_simps)

lemma tilt_peak: "tiltForAltitude 0.025 = 80"
  by (simp add: tiltForAltitude_unfold)

lemma tilt_symmetric: "tiltForAltitude (0.025 + d) = tiltForAltitude (0.025 - d)"
proof -
  have c: "cos ((0.025 + d - 0.025) * (2 * pi / 0.05)) = cos ((0.025 - d - 0.025) * (2 * pi / 0.05))"
  proof -
    have "(0.025 - d - 0.025) * (2 * pi / 0.05) = - ((0.025 + d - 0.025) * (2 * pi / 0.05))"
      by (simp add: algebra_simps)
    then show ?thesis by (simp only: cos_minus)
  qed
  have r: "(0.025 + d < 0 \<or> 0.025 + d > 0.05) = (0.025 - d < 0 \<or> 0.025 - d > (0.05::real))"
    by auto
  show ?thesis
    unfolding tiltForAltitude_unfold c r ..
qed

text \<open>
  C4.  For every altitude \<open>a\<close> outside the interval from 0 to 0.05 the tilt is 0; inside it
  the tilt is \<open>80 * 0.5 * (cos ((a - 0.025) * 2 * pi / 0.05) + 1)\<close>; at 0.025 it is the maximum
  tilt, 80; and the tilt at \<open>0.025 + d\<close> is the tilt at \<open>0.025 - d\<close>.
\<close>

theorem tiltForAltitude_hump:
  "(a < 0 \<or> 0.05 < a \<longrightarrow> tiltForAltitude a = 0)
   \<and> (0 \<le> a \<and> a \<le> 0.05 \<longrightarrow>
        tiltForAltitude a = 80 * 0.5 * (cos ((a - 0.025) * 2 * pi / 0.05) + 1))
   \<and> tiltForAltitude 0.025 = maxTiltY \<and> maxTiltY = 80
   \<and> tiltForAltitude (0.025 + d) = tiltForAltitude (0.025 - d)"
  using tilt_outside [of a] tilt_inside [of a] tilt_peak tilt_symmetric [of d]
  by (simp add: maxTiltY_def)

theorem tiltForAltitude_hump_witness:
  "((0.2::real) < 0 \<or> (0.05::real) < 0.2) \<and> tiltForAltitude 0.2 = 0
   \<and> (0::real) \<le> 0.0125 \<and> (0.0125::real) \<le> 0.05 \<and> tiltForAltitude 0.0125 = 40
   \<and> tiltForAltitude 0.0375 = 40 \<and> tiltForAltitude 0.025 = 80"
proof -
  have "(0.2::real) < 0 \<or> 0.05 < (0.2::real) \<longrightarrow> tiltForAltitude 0.2 = 0"
    using tiltForAltitude_hump [of "0.2" 0] by blast
  then have out: "tiltForAltitude 0.2 = 0"
    by simp
  have "0 \<le> (0.0125::real) \<and> (0.0125::real) \<le> 0.05 \<longrightarrow>
          tiltForAltitude 0.0125 = 80 * 0.5 * (cos ((0.0125 - 0.025) * 2 * pi / 0.05) + 1)"
    using tiltForAltitude_hump [of "0.0125" 0] by blast
  then have "tiltForAltitude 0.0125 = 80 * 0.5 * (cos ((0.0125 - 0.025) * 2 * pi / 0.05) + 1)"
    by simp
  moreover have "(0.0125 - 0.025) * 2 * pi / 0.05 = - (pi / 2)"
    by simp
  ultimately have left: "tiltForAltitude 0.0125 = 40"
    by (simp only: cos_minus cos_pi_half) simp
  have "tiltForAltitude (0.025 + 0.0125) = tiltForAltitude (0.025 - 0.0125)"
    using tiltForAltitude_hump [of 0 "0.0125"] by blast
  then have right: "tiltForAltitude 0.0375 = 40"
    using left by simp
  have "tiltForAltitude 0.025 = maxTiltY"
    using tiltForAltitude_hump [of 0 0] by blast
  then have peak: "tiltForAltitude 0.025 = 80"
    by (simp add: maxTiltY_def)
  show ?thesis
    using out peak left right by simp
qed

subsection \<open>Spin\<close>

lemma spinGlobe_set:
  "s \<noteq> 0 \<Longrightarrow> spinGlobe opts (Num s) g =
     g\<lparr>spinspeed := Some s, controls_autoRotate := True, controls_autoRotateSpeed := Some s\<rparr>"
  by (simp add: spinGlobe_def Let_def)

lemma spinGlobe_zero:
  "spinGlobe opts (Num 0) g =
     g\<lparr>spinspeed := spinspeed g, controls_autoRotate := False,
       controls_autoRotateSpeed := spinspeed g\<rparr>"
  by (simp add: spinGlobe_def Let_def)

lemma spinGlobe_nullish_remembered:
  "nullish a \<Longrightarrow> spinspeed g = Some s \<Longrightarrow> s \<noteq> 0 \<Longrightarrow> spinGlobe opts a g =
     g\<lparr>spinspeed := Some s, controls_autoRotate := True, controls_autoRotateSpeed := Some s\<rparr>"
  by (auto simp: spinGlobe_def nullish_def Let_def)

lemma spinGlobe_nullish_default:
  "nullish a \<Longrightarrow>
   spinspeed g = None \<or> spinspeed g = Some 0 \<or> spinspeed g = Some (autoRotateSpeed opts) \<Longrightarrow>
   spinGlobe opts a g =
     g\<lparr>spinspeed := Some (autoRotateSpeed opts), controls_autoRotate := True,
       controls_autoRotateSpeed := Some (autoRotateSpeed opts)\<rparr>"
  by (auto simp: spinGlobe_def nullish_def Let_def)

lemma never_set_step:
  "c = Num 0 \<or> nullish c \<Longrightarrow>
   spinspeed g = None \<or> spinspeed g = Some 0 \<or> spinspeed g = Some (autoRotateSpeed opts) \<Longrightarrow>
   spinspeed (spinGlobe opts c g) = None \<or> spinspeed (spinGlobe opts c g) = Some 0
   \<or> spinspeed (spinGlobe opts c g) = Some (autoRotateSpeed opts)"
  by (auto simp: spinGlobe_def nullish_def Let_def)

lemma never_set_run:
  "\<forall>c \<in> set calls. c = Num 0 \<or> nullish c \<Longrightarrow>
   spinspeed g = None \<or> spinspeed g = Some 0 \<or> spinspeed g = Some (autoRotateSpeed opts) \<Longrightarrow>
   spinspeed (fold (spinGlobe opts) calls g) = None
   \<or> spinspeed (fold (spinGlobe opts) calls g) = Some 0
   \<or> spinspeed (fold (spinGlobe opts) calls g) = Some (autoRotateSpeed opts)"
proof (induction calls arbitrary: g)
  case Nil
  then show ?case by simp
next
  case (Cons c calls)
  have "c = Num 0 \<or> nullish c"
    using Cons.prems(1) by simp
  from never_set_step [OF this Cons.prems(2)] Cons.IH [of "spinGlobe opts c g"] Cons.prems(1)
  show ?case by simp
qed

lemma nonzero_step:
  "spinspeed g = Some v \<Longrightarrow> v \<noteq> 0 \<Longrightarrow> \<exists>w. spinspeed (spinGlobe opts c g) = Some w \<and> w \<noteq> 0"
  by (cases c) (auto simp: spinGlobe_def Let_def)

lemma nonzero_run:
  "spinspeed g = Some v \<Longrightarrow> v \<noteq> 0 \<Longrightarrow>
   \<exists>w. spinspeed (fold (spinGlobe opts) calls g) = Some w \<and> w \<noteq> 0"
proof (induction calls arbitrary: g v)
  case Nil
  then show ?case by simp
next
  case (Cons c calls)
  from nonzero_step [OF Cons.prems, of opts c]
  obtain w where "spinspeed (spinGlobe opts c g) = Some w" "w \<noteq> 0" by blast
  from Cons.IH [OF this] show ?case by simp
qed

lemma not_zero_step:
  "autoRotateSpeed opts \<noteq> 0 \<Longrightarrow> spinspeed g \<noteq> Some 0 \<Longrightarrow> spinspeed (spinGlobe opts c g) \<noteq> Some 0"
  by (cases c) (auto simp: spinGlobe_def Let_def split: option.splits)

lemma not_zero_run:
  "autoRotateSpeed opts \<noteq> 0 \<Longrightarrow> spinspeed g \<noteq> Some 0 \<Longrightarrow>
   spinspeed (fold (spinGlobe opts) calls g) \<noteq> Some 0"
proof (induction calls arbitrary: g)
  case Nil
  then show ?case by simp
next
  case (Cons c calls)
  from Cons.IH [OF Cons.prems(1) not_zero_step [OF Cons.prems, of c]]
  show ?case by simp
qed

text \<open>
  C5.  For every non-zero speed \<open>s\<close> set by \<^verbatim>\<open>spinGlobe(s)\<close>: after \<^verbatim>\<open>spinGlobe(0)\<close>, which
  deactivates rotation, a call with \<^verbatim>\<open>undefined\<close> or \<^verbatim>\<open>null\<close> activates rotation at \<open>s\<close>, the
  speed remembered, not at the configured default.  When no non-zero speed was ever set, that
  is after any calls that were each \<^verbatim>\<open>spinGlobe(0)\<close> or had no speed, starting with nothing
  remembered, the call activates rotation at the configured default speed.
\<close>

theorem spinGlobe_resumes_previous_speed:
  "(s \<noteq> 0 \<and> nullish a \<longrightarrow>
      \<not> controls_autoRotate (spinGlobe opts (Num 0) (spinGlobe opts (Num s) g))
      \<and> controls_autoRotate (spinGlobe opts a (spinGlobe opts (Num 0) (spinGlobe opts (Num s) g)))
      \<and> controls_autoRotateSpeed (spinGlobe opts a (spinGlobe opts (Num 0) (spinGlobe opts (Num s) g))) = Some s
      \<and> spinspeed (spinGlobe opts a (spinGlobe opts (Num 0) (spinGlobe opts (Num s) g))) = Some s)
   \<and> (spinspeed g = None \<and> (\<forall>c \<in> set calls. c = Num 0 \<or> nullish c) \<and> nullish a \<longrightarrow>
      controls_autoRotate (spinGlobe opts a (fold (spinGlobe opts) calls g))
      \<and> controls_autoRotateSpeed (spinGlobe opts a (fold (spinGlobe opts) calls g))
          = Some (autoRotateSpeed opts))"
proof (intro conjI impI)
  assume h: "s \<noteq> 0 \<and> nullish a"
  let ?g2 = "spinGlobe opts (Num 0) (spinGlobe opts (Num s) g)"
  have r: "spinspeed ?g2 = Some s"
    using h by (simp add: spinGlobe_set spinGlobe_zero)
  show "\<not> controls_autoRotate ?g2"
    by (simp add: spinGlobe_zero)
  from spinGlobe_nullish_remembered [of a ?g2 s opts] h r
  show "controls_autoRotate (spinGlobe opts a ?g2)"
    and "controls_autoRotateSpeed (spinGlobe opts a ?g2) = Some s"
    and "spinspeed (spinGlobe opts a ?g2) = Some s"
    by simp_all
next
  assume h: "spinspeed g = None \<and> (\<forall>c \<in> set calls. c = Num 0 \<or> nullish c) \<and> nullish a"
  let ?g1 = "fold (spinGlobe opts) calls g"
  have "spinspeed ?g1 = None \<or> spinspeed ?g1 = Some 0 \<or> spinspeed ?g1 = Some (autoRotateSpeed opts)"
    using never_set_run [of calls g opts] h by simp
  from spinGlobe_nullish_default [OF _ this, of a] h
  show "controls_autoRotate (spinGlobe opts a ?g1)"
    and "controls_autoRotateSpeed (spinGlobe opts a ?g1) = Some (autoRotateSpeed opts)"
    by simp_all
qed

theorem spinGlobe_resumes_previous_speed_witness:
  "(0.5::real) \<noteq> 0 \<and> nullish Undefined
   \<and> \<not> controls_autoRotate (spinGlobe default_opts (Num 0) (spinGlobe default_opts (Num 0.5) new_globe))
   \<and> controls_autoRotate (spinGlobe default_opts Undefined
        (spinGlobe default_opts (Num 0) (spinGlobe default_opts (Num 0.5) new_globe)))
   \<and> controls_autoRotateSpeed (spinGlobe default_opts Undefined
        (spinGlobe default_opts (Num 0) (spinGlobe default_opts (Num 0.5) new_globe))) = Some 0.5
   \<and> spinspeed new_globe = None \<and> nullish Null
   \<and> controls_autoRotateSpeed (spinGlobe default_opts Undefined
        (fold (spinGlobe default_opts) [Num 0, Null] new_globe)) = Some 0.35"
proof -
  have a: "(0.5::real) \<noteq> 0 \<and> nullish Undefined"
    by (simp add: nullish_def)
  have b: "spinspeed new_globe = None \<and> (\<forall>c \<in> set [Num 0, Null]. c = Num 0 \<or> nullish c)
           \<and> nullish Undefined"
    by (simp add: nullish_def new_globe_def)
  have c: "autoRotateSpeed default_opts = 0.35"
    by (simp add: default_opts_def)
  show ?thesis
    using spinGlobe_resumes_previous_speed [of "0.5" Undefined default_opts new_globe "[Num 0, Null]"] a b c
    by simp
qed

text \<open>
  C10, as stated, fails when the configured default speed is zero: the constructor's own
  first call is then \<^verbatim>\<open>spinGlobe(0)\<close>, and the next call without a speed remembers 0.
\<close>

theorem remembered_speed_zero_counterexample:
  "spinspeed (spinGlobe (default_opts\<lparr>autoRotateSpeed := 0\<rparr>) Undefined
     (spinGlobe (default_opts\<lparr>autoRotateSpeed := 0\<rparr>) (Num 0) new_globe)) = Some 0"
  by (simp add: spinGlobe_def new_globe_def default_opts_def Let_def)

text \<open>
  C10, amended.  \<^verbatim>\<open>spinGlobe(0)\<close> deactivates rotation and leaves the remembered speed as it
  is; a non-zero argument overwrites it and activates rotation at it.  A call without a
  speed activates rotation; it keeps a remembered speed that is not zero, and otherwise, with
  nothing or zero remembered, it stores the configured default, which is then remembered even
  when it is zero.  Every call writes the speed it leaves remembered to the rotate speed of
  the controls.  When the configured default speed is not zero, a remembered speed that is
  not zero stays so under every sequence of calls.  Once a non-zero speed is remembered,
  then after any calls at all and whatever the default a non-zero speed is still remembered,
  and a call without a speed activates rotation at exactly that speed.  When \<^verbatim>\<open>spinGlobe(0)\<close>
  is called with nothing remembered, the remembered speed stays unset and the unset value is
  written to the rotate speed of the controls.
\<close>

theorem remembered_speed_invariant:
  "spinspeed (spinGlobe opts (Num 0) g) = spinspeed g
   \<and> \<not> controls_autoRotate (spinGlobe opts (Num 0) g)
   \<and> (v \<noteq> 0 \<longrightarrow>
        spinspeed (spinGlobe opts (Num v) g) = Some v
        \<and> controls_autoRotate (spinGlobe opts (Num v) g))
   \<and> (nullish a \<and> spinspeed g = Some v \<and> v \<noteq> 0 \<longrightarrow>
        spinspeed (spinGlobe opts a g) = Some v
        \<and> controls_autoRotate (spinGlobe opts a g))
   \<and> (nullish a \<and> (spinspeed g = None \<or> spinspeed g = Some 0) \<longrightarrow>
        spinspeed (spinGlobe opts a g) = Some (autoRotateSpeed opts)
        \<and> controls_autoRotate (spinGlobe opts a g))
   \<and> controls_autoRotateSpeed (spinGlobe opts c g) = spinspeed (spinGlobe opts c g)
   \<and> (autoRotateSpeed opts \<noteq> 0 \<and> spinspeed g \<noteq> Some 0 \<longrightarrow>
        spinspeed (fold (spinGlobe opts) calls g) \<noteq> Some 0)
   \<and> (spinspeed g = Some v \<and> v \<noteq> 0 \<and> nullish a \<longrightarrow>
        (\<exists>w. w \<noteq> 0
           \<and> spinspeed (fold (spinGlobe opts) calls g) = Some w
           \<and> spinspeed (spinGlobe opts a (fold (spinGlobe opts) calls g)) = Some w
           \<and> controls_autoRotateSpeed (spinGlobe opts a (fold (spinGlobe opts) calls g)) = Some w
           \<and> controls_autoRotate (spinGlobe opts a (fold (spinGlobe opts) calls g))))
   \<and> (spinspeed g = None \<longrightarrow>
        spinspeed (spinGlobe opts (Num 0) g) = None
        \<and> controls_autoRotateSpeed (spinGlobe opts (Num 0) g) = None)"
proof (intro conjI impI)
  show "spinspeed (spinGlobe opts (Num 0) g) = spinspeed g"
    and "\<not> controls_autoRotate (spinGlobe opts (Num 0) g)"
    by (simp_all add: spinGlobe_zero)
next
  assume "v \<noteq> 0"
  then show "spinspeed (spinGlobe opts (Num v) g) = Some v"
    and "controls_autoRotate (spinGlobe opts (Num v) g)"
    by (simp_all add: spinGlobe_set)
next
  assume h: "nullish a \<and> spinspeed g = Some v \<and> v \<noteq> 0"
  from spinGlobe_nullish_remembered [of a g v opts] h
  show "spinspeed (spinGlobe opts a g) = Some v"
    and "controls_autoRotate (spinGlobe opts a g)"
    by simp_all
next
  assume h: "nullish a \<and> (spinspeed g = None \<or> spinspeed g = Some 0)"
  then have "spinspeed g = None \<or> spinspeed g = Some 0 \<or> spinspeed g = Some (autoRotateSpeed opts)"
    by blast
  from spinGlobe_nullish_default [OF _ this, of a] h
  show "spinspeed (spinGlobe opts a g) = Some (autoRotateSpeed opts)"
    and "controls_autoRotate (spinGlobe opts a g)"
    by simp_all
next
  show "controls_autoRotateSpeed (spinGlobe opts c g) = spinspeed (spinGlobe opts c g)"
    by (simp add: spinGlobe_def Let_def)
next
  assume "autoRotateSpeed opts \<noteq> 0 \<and> spinspeed g \<noteq> Some 0"
  then show "spinspeed (fold (spinGlobe opts) calls g) \<noteq> Some 0"
    using not_zero_run [of opts g calls] by simp
next
  assume h: "spinspeed g = Some v \<and> v \<noteq> 0 \<and> nullish a"
  let ?g1 = "fold (spinGlobe opts) calls g"
  from nonzero_run [of g v opts calls] h
  obtain w where w: "spinspeed ?g1 = Some w" "w \<noteq> 0" by blast
  from spinGlobe_nullish_remembered [of a ?g1 w opts] h w
  have "spinspeed (spinGlobe opts a ?g1) = Some w
        \<and> controls_autoRotateSpeed (spinGlobe opts a ?g1) = Some w
        \<and> controls_autoRotate (spinGlobe opts a ?g1)"
    by simp
  with w show "\<exists>w. w \<noteq> 0
           \<and> spinspeed ?g1 = Some w
           \<and> spinspeed (spinGlobe opts a ?g1) = Some w
           \<and> controls_autoRotateSpeed (spinGlobe opts a ?g1) = Some w
           \<and> controls_autoRotate (spinGlobe opts a ?g1)"
    by blast
next
  assume "spinspeed g = None"
  then show "spinspeed (spinGlobe opts (Num 0) g) = None"
    and "controls_autoRotateSpeed (spinGlobe opts (Num 0) g) = None"
    by (simp_all add: spinGlobe_zero)
qed

theorem remembered_speed_invariant_witness:
  "autoRotateSpeed default_opts \<noteq> 0
   \<and> (0.5::real) \<noteq> 0 \<and> nullish Undefined
   \<and> spinspeed (spinGlobe default_opts (Num 0.5) new_globe) = Some 0.5
   \<and> spinspeed (spinGlobe default_opts Undefined (spinGlobe default_opts (Num 0.5) new_globe)) = Some 0.5
   \<and> controls_autoRotateSpeed
        (spinGlobe default_opts Undefined (spinGlobe default_opts (Num 0.5) new_globe)) = Some 0.5
   \<and> spinspeed (fold (spinGlobe default_opts) [Num 0, Null, Num 0]
         (spinGlobe default_opts (Num 0.5) new_globe)) \<noteq> Some 0
   \<and> (\<exists>w. w \<noteq> 0
         \<and> spinspeed (fold (spinGlobe default_opts) [Num 0, Null, Num 0]
              (spinGlobe default_opts (Num 0.5) new_globe)) = Some w
         \<and> controls_autoRotateSpeed (spinGlobe default_opts Undefined
              (fold (spinGlobe default_opts) [Num 0, Null, Num 0]
                 (spinGlobe default_opts (Num 0.5) new_globe))) = Some w)
   \<and> spinspeed new_globe = None
   \<and> spinspeed (spinGlobe default_opts Undefined new_globe) = Some 0.35
   \<and> controls_autoRotate (spinGlobe default_opts Undefined new_globe)
   \<and> controls_autoRotateSpeed (spinGlobe default_opts Undefined new_globe) = Some 0.35
   \<and> controls_autoRotateSpeed (spinGlobe default_opts (Num 0) new_globe) = None"
proof -
  let ?g = "spinGlobe default_opts (Num 0.5) new_globe"
  have a: "autoRotateSpeed default_opts \<noteq> 0" "autoRotateSpeed default_opts = 0.35"
    by (simp_all add: default_opts_def)
  have b: "spinspeed ?g = Some 0.5"
    by (simp add: spinGlobe_set)
  have c: "nullish Undefined"
    by (simp add: nullish_def)
  have d: "spinspeed new_globe = None"
    by (simp add: new_globe_def)
  show ?thesis
    using remembered_speed_invariant [of default_opts ?g "0.5" Undefined Undefined "[Num 0, Null, Num 0]"]
      remembered_speed_invariant [of default_opts new_globe 1 Undefined Undefined "[]"] a b c d
    by auto
qed

subsection \<open>Idle timer\<close>

lemma onInteraction_ready:
  "globeready g \<Longrightarrow> 0 < autoSpinAfterIdleMs opts \<Longrightarrow>
   onInteraction opts g =
     g\<lparr>spinspeed := spinspeed g, controls_autoRotate := False,
       controls_autoRotateSpeed := spinspeed g,
       nonInteractionTimer := Some (now g + autoSpinAfterIdleMs opts)\<rparr>"
  by (simp add: onInteraction_def spinGlobe_zero)

lemma elapse_before:
  "nonInteractionTimer g = Some d \<Longrightarrow> now g \<le> t \<Longrightarrow> t < d \<Longrightarrow> elapse_to opts t g = g\<lparr>now := t\<rparr>"
  by (simp add: elapse_to_def)

lemma elapse_fires:
  "nonInteractionTimer g = Some d \<Longrightarrow> now g \<le> d \<Longrightarrow> d \<le> t \<Longrightarrow>
   elapse_to opts t g = (nonInteractionTimeout opts (g\<lparr>now := d\<rparr>))\<lparr>now := t\<rparr>"
  by (simp add: elapse_to_def max_def)

lemma timeout_autoRotate:
  "\<not> controls_autoRotate g \<Longrightarrow>
   controls_autoRotate (nonInteractionTimeout opts g)
     = (altitude (pointOfView g) > onlySpinAboveAltitude opts)"
  by (simp add: nonInteractionTimeout_def spinGlobe_def Let_def)

lemma timeout_timer: "nonInteractionTimer (nonInteractionTimeout opts g) = None"
  by (simp add: nonInteractionTimeout_def spinGlobe_def Let_def)

lemma timeout_speed:
  "altitude (pointOfView g) > onlySpinAboveAltitude opts \<Longrightarrow>
   controls_autoRotateSpeed (nonInteractionTimeout opts g)
     = Some (case spinspeed g of Some v \<Rightarrow> if v \<noteq> 0 then v else autoRotateSpeed opts
             | None \<Rightarrow> autoRotateSpeed opts)"
  by (simp add: nonInteractionTimeout_def spinGlobe_def Let_def split: option.splits)

text \<open>
  C1, amended.  An interaction on a ready globe with a positive idle delay \<open>D\<close> stops the spin
  and sets the idle timer to fire \<open>D\<close> later.  With no further interaction the spin stays
  stopped at every instant before that; at exactly that instant the timer fires, and the
  spin resumes if and only if the altitude of the camera then is greater than
  \<^verbatim>\<open>onlySpinAboveAltitude\<close>; it resumes at the remembered non-zero speed, or at the
  configured default when there is none.
\<close>

theorem idle_timer_resume_policy:
  "globeready g \<and> 0 < autoSpinAfterIdleMs opts \<longrightarrow>
     \<not> controls_autoRotate (onInteraction opts g)
     \<and> nonInteractionTimer (onInteraction opts g) = Some (now g + autoSpinAfterIdleMs opts)
     \<and> (now g \<le> t \<and> t < now g + autoSpinAfterIdleMs opts \<longrightarrow>
          \<not> controls_autoRotate (elapse_to opts t ((onInteraction opts g)\<lparr>pointOfView := p\<rparr>)))
     \<and> controls_autoRotate
          (elapse_to opts (now g + autoSpinAfterIdleMs opts) ((onInteraction opts g)\<lparr>pointOfView := p\<rparr>))
        = (altitude p > onlySpinAboveAltitude opts)
     \<and> nonInteractionTimer
          (elapse_to opts (now g + autoSpinAfterIdleMs opts) ((onInteraction opts g)\<lparr>pointOfView := p\<rparr>))
        = None
     \<and> (altitude p > onlySpinAboveAltitude opts \<longrightarrow>
          controls_autoRotateSpeed
            (elapse_to opts (now g + autoSpinAfterIdleMs opts) ((onInteraction opts g)\<lparr>pointOfView := p\<rparr>))
          = Some (case spinspeed g of Some v \<Rightarrow> if v \<noteq> 0 then v else autoRotateSpeed opts
                  | None \<Rightarrow> autoRotateSpeed opts))"
proof (intro impI)
  assume h: "globeready g \<and> 0 < autoSpinAfterIdleMs opts"
  let ?D = "autoSpinAfterIdleMs opts"
  let ?g1 = "(onInteraction opts g)\<lparr>pointOfView := p\<rparr>"
  have i: "onInteraction opts g =
     g\<lparr>spinspeed := spinspeed g, controls_autoRotate := False,
       controls_autoRotateSpeed := spinspeed g,
       nonInteractionTimer := Some (now g + ?D)\<rparr>"
    using h by (simp add: onInteraction_ready)
  have t1: "nonInteractionTimer ?g1 = Some (now g + ?D)" and n1: "now ?g1 = now g"
    and r1: "\<not> controls_autoRotate ?g1" and s1: "spinspeed ?g1 = spinspeed g"
    by (simp_all add: i)
  have before: "now g \<le> t \<and> t < now g + ?D \<longrightarrow> \<not> controls_autoRotate (elapse_to opts t ?g1)"
  proof
    assume "now g \<le> t \<and> t < now g + ?D"
    then have "elapse_to opts t ?g1 = ?g1\<lparr>now := t\<rparr>"
      using elapse_before [OF t1, of t opts] n1 by simp
    then show "\<not> controls_autoRotate (elapse_to opts t ?g1)"
      using r1 by simp
  qed
  have fire: "elapse_to opts (now g + ?D) ?g1
               = (nonInteractionTimeout opts (?g1\<lparr>now := now g + ?D\<rparr>))\<lparr>now := now g + ?D\<rparr>"
    using elapse_fires [OF t1, of "now g + ?D" opts] n1 h by simp
  have at: "controls_autoRotate (elapse_to opts (now g + ?D) ?g1) = (altitude p > onlySpinAboveAltitude opts)"
    unfolding fire using r1 timeout_autoRotate [of "?g1\<lparr>now := now g + ?D\<rparr>" opts] by simp
  have tm: "nonInteractionTimer (elapse_to opts (now g + ?D) ?g1) = None"
    unfolding fire by (simp add: timeout_timer)
  have sp: "altitude p > onlySpinAboveAltitude opts \<longrightarrow>
          controls_autoRotateSpeed (elapse_to opts (now g + ?D) ?g1)
          = Some (case spinspeed g of Some v \<Rightarrow> if v \<noteq> 0 then v else autoRotateSpeed opts
                  | None \<Rightarrow> autoRotateSpeed opts)"
    unfolding fire using timeout_speed [of opts "?g1\<lparr>now := now g + ?D\<rparr>"] s1 by simp
  show "\<not> controls_autoRotate (onInteraction opts g)
     \<and> nonInteractionTimer (onInteraction opts g) = Some (now g + ?D)
     \<and> (now g \<le> t \<and> t < now g + ?D \<longrightarrow> \<not> controls_autoRotate (elapse_to opts t ?g1))
     \<and> controls_autoRotate (elapse_to opts (now g + ?D) ?g1) = (altitude p > onlySpinAboveAltitude opts)
     \<and> nonInteractionTimer (elapse_to opts (now g + ?D) ?g1) = None
     \<and> (altitude p > onlySpinAboveAltitude opts \<longrightarrow>
          controls_autoRotateSpeed (elapse_to opts (now g + ?D) ?g1)
          = Some (case spinspeed g of Some v \<Rightarrow> if v \<noteq> 0 then v else autoRotateSpeed opts
                  | None \<Rightarrow> autoRotateSpeed opts))"
    using before at tm sp by (simp add: i)
qed


lemma spinning_globe_unfold:
  "spinning_globe = new_globe\<lparr>spinspeed := Some 0.35, controls_autoRotate := True,
      controls_autoRotateSpeed := Some 0.35, globeready := True\<rparr>"
  by (simp add: spinning_globe_def default_opts_def spinGlobe_set)

text \<open>
  C1, as stated, fails: with the ceiling at 0.4 and the camera at altitude 2.5 when the
  timer expires, above the ceiling, the spin resumes; with the camera at altitude 0.3,
  not above it, the spin stays stopped.
\<close>

theorem resume_above_ceiling_counterexample:
  "\<not> altitude (pointOfView spinning_globe) \<le> onlySpinAboveAltitude idle_opts
   \<and> \<not> controls_autoRotate (onInteraction idle_opts spinning_globe)
   \<and> controls_autoRotate (elapse_to idle_opts 1000 (onInteraction idle_opts spinning_globe))
   \<and> altitude \<lparr>lat = 0, lng = 0, altitude = 0.3\<rparr> \<le> onlySpinAboveAltitude idle_opts
   \<and> \<not> controls_autoRotate (elapse_to idle_opts 1000
         ((onInteraction idle_opts spinning_globe)\<lparr>pointOfView := \<lparr>lat = 0, lng = 0, altitude = 0.3\<rparr>\<rparr>))"
  by (simp add: spinning_globe_unfold idle_opts_def default_opts_def new_globe_def
      onInteraction_def elapse_to_def nonInteractionTimeout_def spinGlobe_def Let_def)

theorem idle_timer_resume_policy_witness:
  "globeready spinning_globe \<and> 0 < autoSpinAfterIdleMs idle_opts
   \<and> now spinning_globe \<le> 999 \<and> 999 < now spinning_globe + autoSpinAfterIdleMs idle_opts
   \<and> \<not> controls_autoRotate (elapse_to idle_opts 999
          ((onInteraction idle_opts spinning_globe)\<lparr>pointOfView := \<lparr>lat = 0, lng = 0, altitude = 2.5\<rparr>\<rparr>))
   \<and> altitude \<lparr>lat = 0, lng = 0, altitude = 2.5\<rparr> > onlySpinAboveAltitude idle_opts
   \<and> controls_autoRotate (elapse_to idle_opts 1000
          ((onInteraction idle_opts spinning_globe)\<lparr>pointOfView := \<lparr>lat = 0, lng = 0, altitude = 2.5\<rparr>\<rparr>))
   \<and> controls_autoRotateSpeed (elapse_to idle_opts 1000
          ((onInteraction idle_opts spinning_globe)\<lparr>pointOfView := \<lparr>lat = 0, lng = 0, altitude = 2.5\<rparr>\<rparr>))
       = Some 0.35"
proof -
  have a: "globeready spinning_globe \<and> 0 < autoSpinAfterIdleMs idle_opts"
    by (simp add: spinning_globe_unfold idle_opts_def)
  have b: "now spinning_globe = 0" "autoSpinAfterIdleMs idle_opts = 1000"
    "spinspeed spinning_globe = Some 0.35" "onlySpinAboveAltitude idle_opts = 0.4"
    by (simp_all add: spinning_globe_unfold idle_opts_def new_globe_def default_opts_def)
  show ?thesis
    using idle_timer_resume_policy [of spinning_globe idle_opts 999 "\<lparr>lat = 0, lng = 0, altitude = 2.5\<rparr>"] a b
    by simp
qed

subsection \<open>Clouds\<close>

lemma showClouds_same: "show = cloudsshown g \<Longrightarrow> showClouds planet show g = g"
  by (simp add: showClouds_def)

lemma showClouds_no_texture: "\<not> truthy_url (cloudsURL planet) \<Longrightarrow> showClouds planet show g = g"
  by (simp add: showClouds_def)

lemma showClouds_shown:
  "truthy_url (cloudsURL planet) \<Longrightarrow> cloudsshown (showClouds planet show g) = show"
  by (simp add: showClouds_def createClouds_def addClouds_def loadThreeJS_def Let_def)

lemma showClouds_twice: "showClouds planet show (showClouds planet show g) = showClouds planet show g"
proof (cases "truthy_url (cloudsURL planet)")
  case True
  then show ?thesis
    using showClouds_same [of "show" "showClouds planet show g" planet] showClouds_shown [of planet "show" g]
    by simp
next
  case False
  then show ?thesis by (simp add: showClouds_no_texture)
qed

lemma showClouds_first_build:
  "\<not> cloudsshown g \<Longrightarrow> \<not> clouds g \<Longrightarrow> truthy_url (cloudsURL planet) \<Longrightarrow>
   showClouds planet True g = createClouds (g\<lparr>cloudsshown := True\<rparr>)"
  by (simp add: showClouds_def Let_def)

lemma createClouds_builds: "clouds_builds (createClouds g) = clouds_builds g + 1"
  by (simp add: createClouds_def)

lemma createClouds_shown: "cloudsshown (createClouds g) = cloudsshown g"
  by (simp add: createClouds_def loadThreeJS_def)

lemma cloudsTextureLoaded_keeps:
  "cloudsshown (cloudsTextureLoaded g) = cloudsshown g
   \<and> clouds_builds (cloudsTextureLoaded g) = clouds_builds g"
  by (simp add: cloudsTextureLoaded_def addClouds_def)

text \<open>
  C7.  A call of \<^verbatim>\<open>showClouds\<close> whose argument is the current visibility flag changes
  nothing, and a call repeated at once changes nothing more than the first.  Starting from
  hidden clouds with no mesh, on a planet with a cloud texture, \<^verbatim>\<open>showClouds(true)\<close> twice in
  succession starts exactly one build of the mesh, whether or not the texture arrives
  between the two calls.
\<close>

theorem showClouds_idempotent:
  "(show = cloudsshown g \<longrightarrow> showClouds planet show g = g)
   \<and> showClouds planet show (showClouds planet show g) = showClouds planet show g
   \<and> (\<not> cloudsshown g \<and> \<not> clouds g \<and> truthy_url (cloudsURL planet) \<longrightarrow>
        clouds_builds (showClouds planet True g) = clouds_builds g + 1
        \<and> clouds_builds (showClouds planet True (showClouds planet True g)) = clouds_builds g + 1
        \<and> clouds_builds (showClouds planet True (cloudsTextureLoaded (showClouds planet True g)))
            = clouds_builds g + 1)"
proof (intro conjI impI)
  assume "show = cloudsshown g"
  then show "showClouds planet show g = g" by (rule showClouds_same)
next
  show "showClouds planet show (showClouds planet show g) = showClouds planet show g"
    by (rule showClouds_twice)
next
  assume h: "\<not> cloudsshown g \<and> \<not> clouds g \<and> truthy_url (cloudsURL planet)"
  then have f: "showClouds planet True g = createClouds (g\<lparr>cloudsshown := True\<rparr>)"
    by (simp add: showClouds_first_build)
  show one: "clouds_builds (showClouds planet True g) = clouds_builds g + 1"
    by (simp add: f createClouds_builds)
  show "clouds_builds (showClouds planet True (showClouds planet True g)) = clouds_builds g + 1"
    by (simp only: showClouds_twice one)
  have "cloudsshown (cloudsTextureLoaded (showClouds planet True g)) = True"
    using h by (simp add: cloudsTextureLoaded_keeps showClouds_shown)
  then have "showClouds planet True (cloudsTextureLoaded (showClouds planet True g))
               = cloudsTextureLoaded (showClouds planet True g)"
    using showClouds_same [of True "cloudsTextureLoaded (showClouds planet True g)" planet] by simp
  then show "clouds_builds (showClouds planet True (cloudsTextureLoaded (showClouds planet True g)))
            = clouds_builds g + 1"
    by (simp add: cloudsTextureLoaded_keeps one)
qed

theorem showClouds_idempotent_witness:
  "False = cloudsshown new_globe \<and> showClouds earth False new_globe = new_globe
   \<and> \<not> cloudsshown new_globe \<and> \<not> clouds new_globe \<and> truthy_url (cloudsURL earth)
   \<and> clouds_builds (showClouds earth True (showClouds earth True new_globe)) = 1"
proof -
  have a: "\<not> cloudsshown new_globe \<and> \<not> clouds new_globe \<and> truthy_url (cloudsURL earth)"
    by (simp add: new_globe_def earth_def truthy_url_def)
  have b: "clouds_builds new_globe = 0"
    by (simp add: new_globe_def)
  show ?thesis
    using showClouds_idempotent [of False new_globe earth] showClouds_idempotent [of True new_globe earth] a b
    by simp
qed

subsection \<open>Missing images\<close>

lemma Globe_setup_no_night:
  "resolve_planet opts = Some planet \<Longrightarrow> \<not> truthy_url (nightImageURL planet) \<Longrightarrow>
   Globe_setup (opts\<lparr>dayMode := m\<rparr>) =
     Inr \<lparr>s_opts = opts\<lparr>dayMode := ''day''\<rparr>, s_planet = planet,
          globeImageUrl = (if \<not> truthy_url (tileEngineURL opts) \<and> truthy_url (imageURL planet)
                           then imageURL planet else None),
          bumpImageUrl = (if \<not> truthy_url (tileEngineURL opts) \<and> truthy_url (bumpImageURL planet)
                          then bumpImageURL planet else None),
          showAtmosphere = atmosphere planet\<rparr>"
  by (simp add: Globe_setup_def resolve_planet_def Let_def)

text \<open>
  C8.  When the configured planet has no night image, the constructor runs without error and
  whatever day mode was requested, \<^verbatim>\<open>night\<close> and \<^verbatim>\<open>daynight\<close> included, everything it decides is
  what it decides for \<^verbatim>\<open>day\<close>: the mode kept in the options is \<^verbatim>\<open>day\<close>, and the surface is then
  built from the day image, without the solar calculator, the night image or the day/night
  shader.  When the planet has no cloud texture, every call of \<^verbatim>\<open>showClouds\<close> leaves the whole
  state as it is.
\<close>

theorem missing_capability_degrades:
  "(resolve_planet opts = Some planet \<and> \<not> truthy_url (nightImageURL planet) \<longrightarrow>
      Globe_setup (opts\<lparr>dayMode := m\<rparr>) = Globe_setup (opts\<lparr>dayMode := ''day''\<rparr>)
      \<and> (\<exists>c. Globe_setup (opts\<lparr>dayMode := m\<rparr>) = Inr c
            \<and> s_opts c = opts\<lparr>dayMode := ''day''\<rparr> \<and> s_planet c = planet
            \<and> \<not> with_solar (showSurface_plan (s_opts c) planet)
            \<and> planetimage (showSurface_plan (s_opts c) planet) = imageURL planet
            \<and> surface2image (showSurface_plan (s_opts c) planet) = None
            \<and> \<not> emissive (showSurface_plan (s_opts c) planet)
            \<and> mat (showSurface_plan (s_opts c) planet) \<noteq> DayNightShader))
   \<and> (\<not> truthy_url (cloudsURL planet) \<longrightarrow> showClouds planet show g = g)"
proof (intro conjI impI)
  assume h: "resolve_planet opts = Some planet \<and> \<not> truthy_url (nightImageURL planet)"
  then have e: "\<And>m. Globe_setup (opts\<lparr>dayMode := m\<rparr>) =
     Inr \<lparr>s_opts = opts\<lparr>dayMode := ''day''\<rparr>, s_planet = planet,
          globeImageUrl = (if \<not> truthy_url (tileEngineURL opts) \<and> truthy_url (imageURL planet)
                           then imageURL planet else None),
          bumpImageUrl = (if \<not> truthy_url (tileEngineURL opts) \<and> truthy_url (bumpImageURL planet)
                          then bumpImageURL planet else None),
          showAtmosphere = atmosphere planet\<rparr>"
    using Globe_setup_no_night by blast
  show "Globe_setup (opts\<lparr>dayMode := m\<rparr>) = Globe_setup (opts\<lparr>dayMode := ''day''\<rparr>)"
    by (simp only: e)
  show "\<exists>c. Globe_setup (opts\<lparr>dayMode := m\<rparr>) = Inr c
            \<and> s_opts c = opts\<lparr>dayMode := ''day''\<rparr> \<and> s_planet c = planet
            \<and> \<not> with_solar (showSurface_plan (s_opts c) planet)
            \<and> planetimage (showSurface_plan (s_opts c) planet) = imageURL planet
            \<and> surface2image (showSurface_plan (s_opts c) planet) = None
            \<and> \<not> emissive (showSurface_plan (s_opts c) planet)
            \<and> mat (showSurface_plan (s_opts c) planet) \<noteq> DayNightShader"
    unfolding e by (simp add: showSurface_plan_def)
next
  assume "\<not> truthy_url (cloudsURL planet)"
  then show "showClouds planet show g = g" by (rule showClouds_no_texture)
qed


theorem missing_capability_degrades_witness:
  "resolve_planet (default_opts\<lparr>opt_planet := PlanetName ''moon''\<rparr>)
     = Some (bumped_planet 1080 ''./images/moon.jpg'' ''./images/moon_bump.jpg'')
   \<and> \<not> truthy_url (nightImageURL (bumped_planet 1080 ''./images/moon.jpg'' ''./images/moon_bump.jpg''))
   \<and> Globe_setup (default_opts\<lparr>opt_planet := PlanetName ''moon'', dayMode := ''daynight''\<rparr>)
       = Globe_setup (default_opts\<lparr>opt_planet := PlanetName ''moon'', dayMode := ''day''\<rparr>)
   \<and> Globe_setup (default_opts\<lparr>opt_planet := PlanetName ''moon'', dayMode := ''night''\<rparr>)
       = Globe_setup (default_opts\<lparr>opt_planet := PlanetName ''moon'', dayMode := ''day''\<rparr>)
   \<and> \<not> truthy_url (cloudsURL (bumped_planet 1080 ''./images/moon.jpg'' ''./images/moon_bump.jpg''))
   \<and> showClouds (bumped_planet 1080 ''./images/moon.jpg'' ''./images/moon_bump.jpg'') True new_globe
       = new_globe"
proof -
  let ?moon = "bumped_planet 1080 ''./images/moon.jpg'' ''./images/moon_bump.jpg''"
  let ?opts = "default_opts\<lparr>opt_planet := PlanetName ''moon''\<rparr>"
  have a: "resolve_planet ?opts = Some ?moon"
    by (simp add: resolve_planet_def planet_table_def)
  have b: "\<not> truthy_url (nightImageURL ?moon)" and c: "\<not> truthy_url (cloudsURL ?moon)"
    by (simp_all add: bumped_planet_def plain_planet_def truthy_url_def)
  show ?thesis
    using missing_capability_degrades [of ?opts ?moon "''daynight''" True new_globe]
      missing_capability_degrades [of ?opts ?moon "''night''" True new_globe] a b c
    by simp
qed

subsection \<open>Zoom samples\<close>

lemma onInteraction_frame:
  "surface (onInteraction opts g) = surface g
   \<and> prevLatLngAlt (onInteraction opts g) = prevLatLngAlt g
   \<and> prevSurfaceOpacity (onInteraction opts g) = prevSurfaceOpacity g
   \<and> surface_opacity (onInteraction opts g) = surface_opacity g
   \<and> camera_near (onInteraction opts g) = camera_near g
   \<and> camera_far (onInteraction opts g) = camera_far g
   \<and> controls_minDistance (onInteraction opts g) = controls_minDistance g
   \<and> controls_maxDistance (onInteraction opts g) = controls_maxDistance g
   \<and> controls_facing_y (onInteraction opts g) = controls_facing_y g
   \<and> globeRadius (onInteraction opts g) = globeRadius g
   \<and> globeTileEngineMaxLevel (onInteraction opts g) = globeTileEngineMaxLevel g
   \<and> solar (onInteraction opts g) = solar g"
  by (simp add: onInteraction_def spinGlobe_zero)

lemma updateSunRotation_frame:
  "surface (updateSunRotation z g) = surface g
   \<and> prevLatLngAlt (updateSunRotation z g) = prevLatLngAlt g
   \<and> prevSurfaceOpacity (updateSunRotation z g) = prevSurfaceOpacity g
   \<and> surface_opacity (updateSunRotation z g) = surface_opacity g
   \<and> camera_near (updateSunRotation z g) = camera_near g
   \<and> camera_far (updateSunRotation z g) = camera_far g
   \<and> controls_minDistance (updateSunRotation z g) = controls_minDistance g
   \<and> controls_maxDistance (updateSunRotation z g) = controls_maxDistance g
   \<and> controls_facing_y (updateSunRotation z g) = controls_facing_y g"
  by (simp add: updateSunRotation_def split: option.splits)

lemma changeSurfaceOpacity_frame:
  "prevLatLngAlt (changeSurfaceOpacity opts a g) = prevLatLngAlt g"
  by (simp add: changeSurfaceOpacity_def changeCameraNear_def changeCameraAngle_def Let_def
      split: option.splits)

lemma changeCameraAngle_frame:
  "surface_opacity (changeCameraAngle a g) = surface_opacity g
   \<and> prevSurfaceOpacity (changeCameraAngle a g) = prevSurfaceOpacity g
   \<and> camera_near (changeCameraAngle a g) = camera_near g
   \<and> camera_far (changeCameraAngle a g) = camera_far g
   \<and> controls_minDistance (changeCameraAngle a g) = controls_minDistance g
   \<and> controls_maxDistance (changeCameraAngle a g) = controls_maxDistance g
   \<and> controls_facing_y (changeCameraAngle a g)
       = (case controls_facing_y g of Some old \<Rightarrow> Some (tiltForAltitude a) | None \<Rightarrow> None)"
  by (simp add: changeCameraAngle_def Let_def split: option.splits)

lemma changeSurfaceOpacity_active:
  "surface g \<Longrightarrow> truthy_url (tileEngineURL opts) \<Longrightarrow>
   surface_opacity (changeSurfaceOpacity opts a g) = opacityForAltitude a
   \<and> prevSurfaceOpacity (changeSurfaceOpacity opts a g) = Some (opacityForAltitude a)
   \<and> controls_facing_y (changeSurfaceOpacity opts a g)
       = (case controls_facing_y g of Some old \<Rightarrow> Some (tiltForAltitude a) | None \<Rightarrow> None)"
  by (simp add: changeSurfaceOpacity_def changeCameraAngle_frame changeCameraNear_def Let_def)

lemma changeSurfaceOpacity_near:
  "surface g \<Longrightarrow> truthy_url (tileEngineURL opts) \<Longrightarrow>
   camera_near (changeSurfaceOpacity opts a g)
     = (case prevSurfaceOpacity g of
          None \<Rightarrow> camera_near g
        | Some q \<Rightarrow> if q > 0 \<and> opacityForAltitude a = 0 then 0.00001
                    else if q = 0 \<and> opacityForAltitude a > 0 then 0.05
                    else camera_near g)"
  by (simp add: changeSurfaceOpacity_def changeCameraAngle_frame changeCameraNear_def Let_def
      split: option.splits)

lemma changeCameraNear_recomputes:
  "camera_near (changeCameraNear near g) = near
   \<and> camera_far (changeCameraNear near g) = globeRadius g * 100
   \<and> controls_minDistance (changeCameraNear near g)
       = globeRadius g * (1 + 5 / 2 ^ globeTileEngineMaxLevel g)
   \<and> controls_maxDistance (changeCameraNear near g) = globeRadius g * 100 - globeRadius g"
  by (simp add: changeCameraNear_def Let_def)

lemma changeSurfaceOpacity_inactive:
  "\<not> surface g \<or> \<not> truthy_url (tileEngineURL opts) \<Longrightarrow> changeSurfaceOpacity opts a g = g"
  by (auto simp: changeSurfaceOpacity_def)

lemma onZoom_processed:
  "prevLatLngAlt g = Some p \<Longrightarrow> \<bar>altitude p - altitude z\<bar> > 0.00001 \<Longrightarrow>
   surface_opacity (onZoom opts z g)
     = surface_opacity (changeSurfaceOpacity opts (altitude z) (if \<bar>altitude p - altitude z\<bar> > interactionSpinThreshold opts then onInteraction opts g else g))
   \<and> camera_near (onZoom opts z g)
     = camera_near (changeSurfaceOpacity opts (altitude z) (if \<bar>altitude p - altitude z\<bar> > interactionSpinThreshold opts then onInteraction opts g else g))
   \<and> controls_facing_y (onZoom opts z g)
     = controls_facing_y (changeSurfaceOpacity opts (altitude z) (if \<bar>altitude p - altitude z\<bar> > interactionSpinThreshold opts then onInteraction opts g else g))
   \<and> prevSurfaceOpacity (onZoom opts z g)
     = prevSurfaceOpacity (changeSurfaceOpacity opts (altitude z) (if \<bar>altitude p - altitude z\<bar> > interactionSpinThreshold opts then onInteraction opts g else g))"
  by (simp add: onZoom_def Let_def onInteraction_frame updateSunRotation_frame changeSurfaceOpacity_frame)


lemma onZoom_skipped:
  "prevLatLngAlt g = None \<or> (prevLatLngAlt g = Some p \<and> \<bar>altitude p - altitude z\<bar> \<le> 0.00001)
   \<or> \<not> surface g \<or> \<not> truthy_url (tileEngineURL opts) \<Longrightarrow>
   surface_opacity (onZoom opts z g) = surface_opacity g
   \<and> camera_near (onZoom opts z g) = camera_near g
   \<and> controls_facing_y (onZoom opts z g) = controls_facing_y g
   \<and> prevSurfaceOpacity (onZoom opts z g) = prevSurfaceOpacity g"
proof -
  assume h: "prevLatLngAlt g = None \<or> (prevLatLngAlt g = Some p \<and> \<bar>altitude p - altitude z\<bar> \<le> 0.00001)
   \<or> \<not> surface g \<or> \<not> truthy_url (tileEngineURL opts)"
  have inact: "\<not> surface g \<or> \<not> truthy_url (tileEngineURL opts) \<Longrightarrow>
      changeSurfaceOpacity opts (altitude z) (onInteraction opts g) = onInteraction opts g
      \<and> changeSurfaceOpacity opts (altitude z) g = g"
    using changeSurfaceOpacity_inactive [of "onInteraction opts g" opts "altitude z"]
      changeSurfaceOpacity_inactive [of g opts "altitude z"]
    by (simp add: onInteraction_frame)
  show ?thesis
  proof (cases "\<not> surface g \<or> \<not> truthy_url (tileEngineURL opts)")
    case True
    from inact [OF True] show ?thesis
      by (simp add: onZoom_def Let_def onInteraction_frame updateSunRotation_frame split: option.splits)
  next
    case False
    with h show ?thesis
      by (auto simp: onZoom_def Let_def onInteraction_frame updateSunRotation_frame split: option.splits)
  qed
qed

text \<open>
  C2, amended.  At a sample the zoom handler processes, that is with the surface overlay
  built, a tile engine configured and an altitude more than 0.00001 away from the previous
  sample's, the surface opacity written is \<open>opacityForAltitude\<close> of the sample's altitude and
  the tilt written (when the controls have a facing point) is \<open>tiltForAltitude\<close> of it,
  whatever the state before.  The camera near distance is chosen by that opacity and the
  opacity retained from the sample processed before: 0.00001 when the retained one is
  positive and the new one zero, 0.05 when the retained one is zero and the new one positive,
  unchanged otherwise.  A first sample, and a sample within 0.00001 of its predecessor, leave
  the three outputs as they are.
\<close>

theorem outputs_of_processed_sample:
  "(surface g \<and> truthy_url (tileEngineURL opts) \<and> prevLatLngAlt g = Some p
      \<and> \<bar>altitude p - altitude z\<bar> > 0.00001 \<longrightarrow>
        surface_opacity (onZoom opts z g) = opacityForAltitude (altitude z)
        \<and> (controls_facing_y g \<noteq> None \<longrightarrow>
             controls_facing_y (onZoom opts z g) = Some (tiltForAltitude (altitude z)))
        \<and> (prevSurfaceOpacity g = Some q \<longrightarrow>
             camera_near (onZoom opts z g)
               = (if q > 0 \<and> opacityForAltitude (altitude z) = 0 then 0.00001
                  else if q = 0 \<and> opacityForAltitude (altitude z) > 0 then 0.05
                  else camera_near g)))
   \<and> (prevLatLngAlt g = None \<or> (prevLatLngAlt g = Some p \<and> \<bar>altitude p - altitude z\<bar> \<le> 0.00001) \<longrightarrow>
        surface_opacity (onZoom opts z g) = surface_opacity g
        \<and> camera_near (onZoom opts z g) = camera_near g
        \<and> controls_facing_y (onZoom opts z g) = controls_facing_y g)"
proof (intro conjI impI)
  assume h: "surface g \<and> truthy_url (tileEngineURL opts) \<and> prevLatLngAlt g = Some p
      \<and> \<bar>altitude p - altitude z\<bar> > 0.00001"
  let ?g1 = "if \<bar>altitude p - altitude z\<bar> > interactionSpinThreshold opts then onInteraction opts g else g"
  have s: "surface ?g1" and f: "controls_facing_y ?g1 = controls_facing_y g"
    and q: "prevSurfaceOpacity ?g1 = prevSurfaceOpacity g" and n: "camera_near ?g1 = camera_near g"
    using h by (simp_all add: onInteraction_frame)
  note z = onZoom_processed [of g p z opts]
  note act = changeSurfaceOpacity_active [OF s, of opts "altitude z"]
  note near = changeSurfaceOpacity_near [OF s, of opts "altitude z"]
  show "surface_opacity (onZoom opts z g) = opacityForAltitude (altitude z)"
    using h z act by simp
  show "controls_facing_y (onZoom opts z g) = Some (tiltForAltitude (altitude z))"
    if "controls_facing_y g \<noteq> None"
    using that h z act f by auto
  show "camera_near (onZoom opts z g)
               = (if q > 0 \<and> opacityForAltitude (altitude z) = 0 then 0.00001
                  else if q = 0 \<and> opacityForAltitude (altitude z) > 0 then 0.05
                  else camera_near g)"
    if "prevSurfaceOpacity g = Some q"
    using that h z near q n by simp
next
  assume h: "prevLatLngAlt g = None \<or> (prevLatLngAlt g = Some p \<and> \<bar>altitude p - altitude z\<bar> \<le> 0.00001)"
  then have "prevLatLngAlt g = None \<or> (prevLatLngAlt g = Some p \<and> \<bar>altitude p - altitude z\<bar> \<le> 0.00001)
     \<or> \<not> surface g \<or> \<not> truthy_url (tileEngineURL opts)"
    by blast
  from onZoom_skipped [OF this]
  show "surface_opacity (onZoom opts z g) = surface_opacity g"
    and "camera_near (onZoom opts z g) = camera_near g"
    and "controls_facing_y (onZoom opts z g) = controls_facing_y g"
    by simp_all
qed


lemmas zoom_defs = onZoom_def onInteraction_def changeSurfaceOpacity_def changeCameraNear_def
  changeCameraAngle_def updateSunRotation_def showSurface_def loadThreeJS_def
  moveSunToPositionAtDate_def view_at_def new_globe_def default_opts_def daynight_opts_def
  truthy_url_def spinGlobe_def Let_def

lemma day_surface:
  "showSurface default_opts sample_solar new_globe
     = new_globe\<lparr>three := True, controls_facing_y := Some 0, solar := None, surface := True,
         scene_surface := True\<rparr>"
  by (simp add: showSurface_def loadThreeJS_def new_globe_def default_opts_def Let_def)

text \<open>
  C2, as stated, fails: two runs of samples end with the same latest sample, at altitude
  0.700005, and with different surface opacities, because the run that passes through
  altitude 0.7 does not process the last sample and keeps the opacity of altitude 0.7.
\<close>

theorem stale_outputs_counterexample:
  "prevLatLngAlt (fold (onZoom default_opts) [view_at 2, view_at 0.7, view_at 0.700005]
       (showSurface default_opts sample_solar new_globe)) = Some (view_at 0.700005)
   \<and> prevLatLngAlt (fold (onZoom default_opts) [view_at 2, view_at 0.700005]
       (showSurface default_opts sample_solar new_globe)) = Some (view_at 0.700005)
   \<and> surface_opacity (fold (onZoom default_opts) [view_at 2, view_at 0.7, view_at 0.700005]
       (showSurface default_opts sample_solar new_globe)) = opacityForAltitude 0.7
   \<and> surface_opacity (fold (onZoom default_opts) [view_at 2, view_at 0.700005]
       (showSurface default_opts sample_solar new_globe)) = opacityForAltitude 0.700005
   \<and> opacityForAltitude 0.7 \<noteq> opacityForAltitude 0.700005"
  unfolding day_surface
  by (simp add: zoom_defs opacityForAltitude_unfold)


lemma zoomed_out_state:
  "fold (onZoom default_opts) [view_at 2, view_at 1.5] (showSurface default_opts sample_solar new_globe)
     = new_globe\<lparr>three := True, controls_facing_y := Some 0, solar := None, surface := True,
         scene_surface := True, surface_opacity := 1, prevSurfaceOpacity := Some 1,
         prevLatLngAlt := Some (view_at 1.5)\<rparr>"
  unfolding day_surface
  by (simp add: zoom_defs opacityForAltitude_unfold tiltForAltitude_unfold)

theorem outputs_of_processed_sample_witness:
  "surface (fold (onZoom default_opts) [view_at 2, view_at 1.5] (showSurface default_opts sample_solar new_globe))
   \<and> truthy_url (tileEngineURL default_opts)
   \<and> prevLatLngAlt (fold (onZoom default_opts) [view_at 2, view_at 1.5]
         (showSurface default_opts sample_solar new_globe)) = Some (view_at 1.5)
   \<and> \<bar>altitude (view_at 1.5) - altitude (view_at 0.2)\<bar> > 0.00001
   \<and> controls_facing_y (fold (onZoom default_opts) [view_at 2, view_at 1.5]
         (showSurface default_opts sample_solar new_globe)) \<noteq> None
   \<and> prevSurfaceOpacity (fold (onZoom default_opts) [view_at 2, view_at 1.5]
         (showSurface default_opts sample_solar new_globe)) = Some 1
   \<and> surface_opacity (onZoom default_opts (view_at 0.2) (fold (onZoom default_opts) [view_at 2, view_at 1.5]
         (showSurface default_opts sample_solar new_globe))) = 0
   \<and> controls_facing_y (onZoom default_opts (view_at 0.2) (fold (onZoom default_opts) [view_at 2, view_at 1.5]
         (showSurface default_opts sample_solar new_globe))) = Some 0
   \<and> camera_near (onZoom default_opts (view_at 0.2) (fold (onZoom default_opts) [view_at 2, view_at 1.5]
         (showSurface default_opts sample_solar new_globe))) = 0.00001
   \<and> \<bar>altitude (view_at 1.5) - altitude (view_at 1.500005)\<bar> \<le> 0.00001
   \<and> surface_opacity (onZoom default_opts (view_at 1.500005) (fold (onZoom default_opts) [view_at 2, view_at 1.5]
         (showSurface default_opts sample_solar new_globe))) = 1"
proof -
  let ?g = "fold (onZoom default_opts) [view_at 2, view_at 1.5] (showSurface default_opts sample_solar new_globe)"
  have a: "surface ?g" "prevLatLngAlt ?g = Some (view_at 1.5)" "controls_facing_y ?g \<noteq> None"
    "prevSurfaceOpacity ?g = Some 1" "surface_opacity ?g = 1"
    unfolding zoomed_out_state by simp_all
  have t: "truthy_url (tileEngineURL default_opts)"
    by (simp add: default_opts_def truthy_url_def)
  have b: "\<bar>altitude (view_at 1.5) - altitude (view_at 0.2)\<bar> > 0.00001"
    "\<bar>altitude (view_at 1.5) - altitude (view_at 1.500005)\<bar> \<le> 0.00001"
    by (simp_all add: view_at_def)
  have c: "opacityForAltitude (altitude (view_at 0.2)) = 0" "tiltForAltitude (altitude (view_at 0.2)) = 0"
    by (simp_all add: view_at_def opacityForAltitude_unfold tiltForAltitude_unfold)
  show ?thesis
    using outputs_of_processed_sample [of ?g default_opts "view_at 1.5" "view_at 0.2" 1]
      outputs_of_processed_sample [of ?g default_opts "view_at 1.5" "view_at 1.500005" 1] a t b c
    by simp
qed

lemma daynight_surface:
  "showSurface daynight_opts sample_solar new_globe
     = new_globe\<lparr>three := True, controls_facing_y := Some 0, solar := Some sample_solar,
         surface_opacity := 1, surface := True, sunPosition := sunPosAt sample_solar 0,
         scene_surface := True\<rparr>"
  by (simp add: showSurface_def loadThreeJS_def new_globe_def default_opts_def daynight_opts_def
      moveSunToPositionAtDate_def Let_def)

text \<open>
  C6 at the failing input: day/night mode with the default tile engine, the surface just
  built with its opacity at 1, the camera near distance at 0.05, then a first sample at
  altitude 2.5 and a second at altitude 0.2.  The opacity goes from 1 to 0 at the second
  sample and the near distance stays 0.05; it still is 0.05 after a third sample further in.
\<close>

theorem first_sample_keeps_near:
  "surface_opacity (showSurface daynight_opts sample_solar new_globe) = 1
   \<and> camera_near (showSurface daynight_opts sample_solar new_globe) = 0.05
   \<and> surface_opacity (fold (onZoom daynight_opts) [view_at 2.5]
        (showSurface daynight_opts sample_solar new_globe)) = 1
   \<and> surface_opacity (fold (onZoom daynight_opts) [view_at 2.5, view_at 0.2]
        (showSurface daynight_opts sample_solar new_globe)) = 0
   \<and> camera_near (fold (onZoom daynight_opts) [view_at 2.5, view_at 0.2]
        (showSurface daynight_opts sample_solar new_globe)) = 0.05
   \<and> camera_near (fold (onZoom daynight_opts) [view_at 2.5, view_at 0.2, view_at 0.1]
        (showSurface daynight_opts sample_solar new_globe)) = 0.05"
  unfolding daynight_surface
  by (simp add: zoom_defs opacityForAltitude_unfold)

theorem first_sample_keeps_near_witness:
  "camera_near (fold (onZoom daynight_opts) [view_at 2.5, view_at 0.2]
        (showSurface daynight_opts sample_solar new_globe)) \<noteq> 0.00001"
  using first_sample_keeps_near by simp

subsection \<open>Zoom samples as interactions\<close>

text \<open>
  A sample whose altitude differs from the previous sample's by more than the threshold is
  an interaction: on a ready globe with a positive idle delay it stops the spin and sets the
  idle timer.  A first sample, or one within the threshold, touches neither.
\<close>

lemma mapper_keeps_spin:
  "controls_autoRotate (changeSurfaceOpacity opts a g) = controls_autoRotate g
   \<and> nonInteractionTimer (changeSurfaceOpacity opts a g) = nonInteractionTimer g
   \<and> controls_autoRotate (updateSunRotation z g) = controls_autoRotate g
   \<and> nonInteractionTimer (updateSunRotation z g) = nonInteractionTimer g"
  by (simp add: changeSurfaceOpacity_def changeCameraNear_def changeCameraAngle_def
      updateSunRotation_def Let_def split: option.splits)

lemma onZoom_qualifying:
  "globeready g \<Longrightarrow> 0 < autoSpinAfterIdleMs opts \<Longrightarrow> prevLatLngAlt g = Some p \<Longrightarrow>
   \<bar>altitude p - altitude z\<bar> > interactionSpinThreshold opts \<Longrightarrow>
   \<not> controls_autoRotate (onZoom opts z g)
   \<and> nonInteractionTimer (onZoom opts z g) = Some (now g + autoSpinAfterIdleMs opts)"
  by (simp add: onZoom_def Let_def mapper_keeps_spin onInteraction_frame onInteraction_ready
      split: option.splits)

lemma onZoom_not_qualifying:
  "prevLatLngAlt g = None \<or> (prevLatLngAlt g = Some p
      \<and> \<bar>altitude p - altitude z\<bar> \<le> interactionSpinThreshold opts) \<Longrightarrow>
   controls_autoRotate (onZoom opts z g) = controls_autoRotate g
   \<and> nonInteractionTimer (onZoom opts z g) = nonInteractionTimer g"
  by (auto simp: onZoom_def Let_def mapper_keeps_spin split: option.splits)

subsection \<open>Sun\<close>

lemma moveSun_loaded:
  "solar g = Some sol \<Longrightarrow> surface g \<Longrightarrow>
   moveSunToPositionAtDate dt g = g\<lparr>sunPosition := sunPosAt sol dt\<rparr>"
  by (simp add: moveSunToPositionAtDate_def)

text \<open>
  C9.  The sun position written for an instant does not depend on the state of the
  controller: from any two states in which the same solar calculator is loaded and the
  surface is built, the same instant gives the same longitude and latitude, the value of
  \<open>sunPosAt\<close>, which reads its two arguments only; and a second call at the same instant
  changes nothing.
\<close>

theorem sunPosAt_deterministic:
  "solar g1 = Some sol \<and> surface g1 \<and> solar g2 = Some sol \<and> surface g2 \<longrightarrow>
     sunPosition (moveSunToPositionAtDate dt g1) = sunPosition (moveSunToPositionAtDate dt g2)
     \<and> sunPosition (moveSunToPositionAtDate dt g1) = sunPosAt sol dt
     \<and> moveSunToPositionAtDate dt (moveSunToPositionAtDate dt g1) = moveSunToPositionAtDate dt g1
     \<and> sunPosAt sol dt
        = (real_of_int (utcMidnight dt - dt) / 86400000 * 360 - 180
             - equationOfTime sol (century sol dt) / 4,
           declination sol (century sol dt))"
  by (simp add: moveSun_loaded sunPosAt_def Let_def)

theorem sunPosAt_deterministic_witness:
  "solar (showSurface daynight_opts sample_solar new_globe) = Some sample_solar
   \<and> surface (showSurface daynight_opts sample_solar new_globe)
   \<and> solar (showSurface daynight_opts sample_solar spinning_globe) = Some sample_solar
   \<and> surface (showSurface daynight_opts sample_solar spinning_globe)
   \<and> sunPosition (moveSunToPositionAtDate 43200000 (showSurface daynight_opts sample_solar new_globe))
      = sunPosition (moveSunToPositionAtDate 43200000 (showSurface daynight_opts sample_solar spinning_globe))
   \<and> sunPosition (moveSunToPositionAtDate 43200000 (showSurface daynight_opts sample_solar new_globe))
      = (- 360, 0)"
proof -
  have a: "solar (showSurface daynight_opts sample_solar new_globe) = Some sample_solar
           \<and> surface (showSurface daynight_opts sample_solar new_globe)"
    by (simp add: daynight_surface)
  have b: "solar (showSurface daynight_opts sample_solar spinning_globe) = Some sample_solar
           \<and> surface (showSurface daynight_opts sample_solar spinning_globe)"
    by (simp add: showSurface_def loadThreeJS_def daynight_opts_def moveSunToPositionAtDate_def Let_def)
  have c: "sunPosAt sample_solar 43200000 = (- 360, 0)"
    by (simp add: sunPosAt_def utcMidnight_def sample_solar_def Let_def)
  have d: "sunPosition (moveSunToPositionAtDate 43200000 (showSurface daynight_opts sample_solar new_globe))
             = sunPosition (moveSunToPositionAtDate 43200000 (showSurface daynight_opts sample_solar spinning_globe))
           \<and> sunPosition (moveSunToPositionAtDate 43200000 (showSurface daynight_opts sample_solar new_globe))
             = sunPosAt sample_solar 43200000"
    using sunPosAt_deterministic [of "showSurface daynight_opts sample_solar new_globe" sample_solar
        "showSurface daynight_opts sample_solar spinning_globe" 43200000] a b
    by blast
  then have e: "sunPosition (moveSunToPositionAtDate 43200000 (showSurface daynight_opts sample_solar new_globe))
             = (- 360, 0)"
    using c by metis
  show ?thesis
    using a b d e by blast
qed

end
